theory Spec2Isabelle
  imports Complex_Main
begin

section \<open>Values, errors and the log\<close>

text \<open>
  JavaScript values as far as the token helper handles them. An object is
  the list of its own properties in insertion order; numbers are the integers
  (the timestamps of a token are whole seconds).
\<close>

datatype json =
    JUndefined
  | JNull
  | JBool bool
  | JNum int
  | JStr string
  | JArr "json list"
  | JObj "(string \<times> json) list"

text \<open>A thrown error: its name, its message and the cause attached to it.\<close>

datatype js_error =
  JsError (err_name: string) (err_message: string) (err_cause: "js_error option")

text \<open>\<^verbatim>\<open>new Error(msg)\<close>: a plain Error with no cause.\<close>

definition new_Error :: "string \<Rightarrow> js_error" where
  "new_Error msg = JsError ''Error'' msg None"

text \<open>
  One line of the log sink: the level, the message and the value logged with it.
\<close>

record log_entry =
  level :: string
  message :: string
  detail :: js_error

text \<open>\<^verbatim>\<open>logger.error(msg, error)\<close>: appends one line at level error.\<close>

definition logger_error :: "log_entry list \<Rightarrow> string \<Rightarrow> js_error \<Rightarrow> log_entry list" where
  "logger_error lg msg e = lg @ [\<lparr>level = ''error'', message = msg, detail = e\<rparr>]"

section \<open>The imported token library\<close>

text \<open>
  The helper calls two functions of the imported module \<^verbatim>\<open>jwt\<close>:
  \<^verbatim>\<open>jwt.sign(payload, secret, {expiresIn})\<close> and \<^verbatim>\<open>jwt.verify(token, secret)\<close>.
  Both read the clock (\<^verbatim>\<open>Date.now()\<close>, milliseconds), passed here as the last
  argument, and either return or throw.
\<close>

record jwt_module =
  jwt_sign :: "json \<Rightarrow> string \<Rightarrow> string \<Rightarrow> int \<Rightarrow> js_error + string"
  jwt_verify :: "string \<Rightarrow> string \<Rightarrow> int \<Rightarrow> js_error + json"

section \<open>The token helper\<close>

text \<open>
  \<^verbatim>\<open>const JWT_SECRET_KEY = process.env.JWT_SECRET || 'your_default_secret_key'\<close>:
  the environment is a map from names to strings; \<^verbatim>\<open>||\<close> takes the default when
  the variable is absent and when it is the empty string.
\<close>

definition JWT_SECRET_KEY :: "(string \<rightharpoonup> string) \<Rightarrow> string" where
  "JWT_SECRET_KEY env =
     (case env ''JWT_SECRET'' of
        None \<Rightarrow> ''your_default_secret_key''
      | Some s \<Rightarrow> if s = [] then ''your_default_secret_key'' else s)"

definition JWT_EXPIRES_IN :: string where
  "JWT_EXPIRES_IN = ''1d''"

text \<open>
  \<^verbatim>\<open>jwttoken.sign\<close> and \<^verbatim>\<open>jwttoken.verify\<close>. The arguments before the payload
  and the token are what the code reads from its surroundings: the imported
  module, the environment at load time, the clock and the log so far. The
  result is the value returned (\<open>Inr\<close>) or the error thrown (\<open>Inl\<close>), with
  the log afterwards.
\<close>

definition sign ::
  "jwt_module \<Rightarrow> (string \<rightharpoonup> string) \<Rightarrow> int \<Rightarrow> log_entry list \<Rightarrow> json
     \<Rightarrow> (js_error + string) \<times> log_entry list" where
  "sign jwt env now lg payload =
     (case jwt_sign jwt payload (JWT_SECRET_KEY env) JWT_EXPIRES_IN now of
        Inr token \<Rightarrow> (Inr token, lg)
      | Inl error \<Rightarrow>
          (Inl (new_Error ''Failed to authenticate token''),
           logger_error lg ''Failed to authenticate tokern'' error))"

definition verify ::
  "jwt_module \<Rightarrow> (string \<rightharpoonup> string) \<Rightarrow> int \<Rightarrow> log_entry list \<Rightarrow> string
     \<Rightarrow> (js_error + json) \<times> log_entry list" where
  "verify jwt env now lg token =
     (case jwt_verify jwt token (JWT_SECRET_KEY env) now of
        Inr payload \<Rightarrow> (Inr payload, lg)
      | Inl error \<Rightarrow>
          (Inl (new_Error ''Failed to authenticate token''),
           logger_error lg ''Failed to authenticate tokern'' error))"

section \<open>The package behind the import\<close>

text \<open>
  The module imported as \<^verbatim>\<open>jwt\<close> is the npm package jsonwebtoken; its
  sources are not part of this repository. What follows models the two calls
  the helper makes, in the order in which the package checks things, for the
  call shapes the helper uses: \<^verbatim>\<open>sign\<close> with the single option
  \<^verbatim>\<open>expiresIn\<close> (a string), \<^verbatim>\<open>verify\<close> with no options, both
  synchronous. The cryptography and the encodings under the package are
  parameters.
\<close>

record primitives =
  hmac :: "string \<Rightarrow> string \<Rightarrow> string \<Rightarrow> string"
    \<comment> \<open>algorithm, key, input: the base64url text of the HMAC\<close>
  json_stringify :: "json \<Rightarrow> string"
  json_parse :: "string \<Rightarrow> json option"
    \<comment> \<open>\<open>None\<close>: \<^verbatim>\<open>JSON.parse\<close> throws\<close>
  b64url :: "string \<Rightarrow> string"
  unb64 :: "string \<Rightarrow> string"
  private_key :: "string \<Rightarrow> bool"
    \<comment> \<open>\<^verbatim>\<open>crypto.createPrivateKey\<close> reads the text as a private key\<close>
  public_key :: "string \<Rightarrow> bool"
    \<comment> \<open>\<^verbatim>\<open>crypto.createPublicKey\<close> reads the text as key material\<close>
  key_algorithms :: "string \<Rightarrow> string list"
    \<comment> \<open>the algorithms allowed by default for such a public key\<close>
  asym_verify :: "string \<Rightarrow> string \<Rightarrow> string \<Rightarrow> string \<Rightarrow> bool"
    \<comment> \<open>algorithm, key, input, signature\<close>

definition JsonWebTokenError :: "string \<Rightarrow> js_error" where
  "JsonWebTokenError msg = JsError ''JsonWebTokenError'' msg None"

definition TokenExpiredError :: "string \<Rightarrow> js_error" where
  "TokenExpiredError msg = JsError ''TokenExpiredError'' msg None"

definition NotBeforeError :: "string \<Rightarrow> js_error" where
  "NotBeforeError msg = JsError ''NotBeforeError'' msg None"

fun typeof :: "json \<Rightarrow> string" where
  "typeof JUndefined = ''undefined''"
| "typeof JNull = ''object''"
| "typeof (JBool _) = ''boolean''"
| "typeof (JNum _) = ''number''"
| "typeof (JStr _) = ''string''"
| "typeof (JArr _) = ''object''"
| "typeof (JObj _) = ''object''"

fun truthy :: "json \<Rightarrow> bool" where
  "truthy JUndefined = False"
| "truthy JNull = False"
| "truthy (JBool b) = b"
| "truthy (JNum n) = (n \<noteq> 0)"
| "truthy (JStr s) = (s \<noteq> [])"
| "truthy (JArr _) = True"
| "truthy (JObj _) = True"

text \<open>Reading a property: \<^verbatim>\<open>undefined\<close> when the value has none of that name.\<close>

fun get_prop :: "json \<Rightarrow> string \<Rightarrow> json" where
  "get_prop (JObj fs) k = (case map_of fs k of Some v \<Rightarrow> v | None \<Rightarrow> JUndefined)"
| "get_prop _ k = JUndefined"

text \<open>
  Assigning a property: an existing one keeps its place, a new one goes last.
\<close>

fun set_prop :: "string \<Rightarrow> json \<Rightarrow> (string \<times> json) list \<Rightarrow> (string \<times> json) list" where
  "set_prop k v [] = [(k, v)]"
| "set_prop k v (f # fs) = (if fst f = k then (k, v) # fs else f # set_prop k v fs)"

subsection \<open>Time spans\<close>

definition is_digit :: "char \<Rightarrow> bool" where
  "is_digit c = (c \<in> set ''0123456789'')"

definition digit_val :: "char \<Rightarrow> int" where
  "digit_val c = of_char c - 48"

definition decimal :: "string \<Rightarrow> int" where
  "decimal ds = foldl (\<lambda>n c. 10 * n + digit_val c) 0 ds"

definition to_lower :: "char \<Rightarrow> char" where
  "to_lower c = (if c \<in> set ''ABCDEFGHIJKLMNOPQRSTUVWXYZ''
                 then char_of (of_char c + (32::nat)) else c)"

definition ms_unit :: "string \<Rightarrow> rat option" where
  "ms_unit u =
     (if u \<in> set [''years'', ''year'', ''yrs'', ''yr'', ''y''] then Some 31557600000
      else if u \<in> set [''weeks'', ''week'', ''w''] then Some 604800000
      else if u \<in> set [''days'', ''day'', ''d''] then Some 86400000
      else if u \<in> set [''hours'', ''hour'', ''hrs'', ''hr'', ''h''] then Some 3600000
      else if u \<in> set [''minutes'', ''minute'', ''mins'', ''min'', ''m''] then Some 60000
      else if u \<in> set [''seconds'', ''second'', ''secs'', ''sec'', ''s''] then Some 1000
      else if u \<in> set [''milliseconds'', ''millisecond'', ''msecs'', ''msec'', ''ms'', []]
      then Some 1
      else None)"

text \<open>
  The package ms on a string: an optional sign, a decimal number, spaces and an
  optional unit, in milliseconds; \<open>None\<close> is its \<^verbatim>\<open>undefined\<close>. The number is
  exact here, a double there.
\<close>

definition ms :: "string \<Rightarrow> rat option" where
  "ms str =
     (if length str > 100 then None
      else
        let neg = (str \<noteq> [] \<and> hd str = CHR ''-'');
            s1 = (if neg then tl str else str);
            ip = takeWhile is_digit s1;
            s2 = dropWhile is_digit s1;
            dot = (s2 \<noteq> [] \<and> hd s2 = CHR ''.'' \<and> tl s2 \<noteq> [] \<and> is_digit (hd (tl s2)));
            fp = (if dot then takeWhile is_digit (tl s2) else []);
            s3 = (if dot then dropWhile is_digit (tl s2) else s2);
            unit = map to_lower (dropWhile (\<lambda>c. c = CHR '' '') s3)
        in if ip = [] \<and> fp = [] then None
           else case ms_unit unit of
                  None \<Rightarrow> None
                | Some f \<Rightarrow>
                    Some ((if neg then - 1 else 1)
                          * (of_int (decimal ip) + of_int (decimal fp) / 10 ^ length fp) * f))"

text \<open>\<^verbatim>\<open>timespan(time, iat)\<close> for a string: \<^verbatim>\<open>Math.floor(iat + ms(time) / 1000)\<close>.\<close>

definition timespan :: "string \<Rightarrow> int \<Rightarrow> int option" where
  "timespan time timestamp =
     (case ms time of
        None \<Rightarrow> None
      | Some milliseconds \<Rightarrow> Some \<lfloor>of_int timestamp + milliseconds / 1000\<rfloor>)"

subsection \<open>Signing\<close>

definition registered_claims :: "string list" where
  "registered_claims = [''iat'', ''exp'', ''nbf'']"

text \<open>
  The payload's registered claims must be numbers; the first property that is
  not one decides the error.
\<close>

fun validatePayload :: "(string \<times> json) list \<Rightarrow> js_error option" where
  "validatePayload [] = None"
| "validatePayload (f # fs) =
     (if fst f \<in> set registered_claims \<and> typeof (snd f) \<noteq> ''number''
      then Some (new_Error ([CHR 0x22] @ fst f @ [CHR 0x22] @ '' should be a number of seconds''))
      else validatePayload fs)"

definition jwt_header :: json where
  "jwt_header = JObj [(''alg'', JStr ''HS256''), (''typ'', JStr ''JWT'')]"

definition secured_input :: "primitives \<Rightarrow> json \<Rightarrow> json \<Rightarrow> string" where
  "secured_input P header payload =
     b64url P (json_stringify P header) @ ''.'' @ b64url P (json_stringify P payload)"

definition jws_sign :: "primitives \<Rightarrow> json \<Rightarrow> json \<Rightarrow> string \<Rightarrow> string" where
  "jws_sign P header payload secret =
     secured_input P header payload @ ''.''
       @ hmac P ''HS256'' secret (secured_input P header payload)"

text \<open>
  The payload that is signed: the caller's properties, \<^verbatim>\<open>iat\<close> set to the
  payload's own non-zero \<^verbatim>\<open>iat\<close> or else to the clock's second, and \<^verbatim>\<open>exp\<close>
  set from the time span.
\<close>

definition issued_at :: "(string \<times> json) list \<Rightarrow> int \<Rightarrow> int" where
  "issued_at fs now =
     (case get_prop (JObj fs) ''iat'' of
        JNum n \<Rightarrow> if n = 0 then now div 1000 else n
      | _ \<Rightarrow> now div 1000)"

definition exp_conflict :: js_error where
  "exp_conflict =
     new_Error (''Bad '' @ [CHR 0x22] @ ''options.expiresIn'' @ [CHR 0x22]
       @ '' option the payload already has an '' @ [CHR 0x22] @ ''exp''
       @ [CHR 0x22] @ '' property.'')"

definition sign_object ::
  "primitives \<Rightarrow> (string \<times> json) list \<Rightarrow> string \<Rightarrow> string \<Rightarrow> int \<Rightarrow> js_error + string" where
  "sign_object P fs secret expiresIn now =
     (case validatePayload fs of
        Some e \<Rightarrow> Inl e
      | None \<Rightarrow>
          if get_prop (JObj fs) ''exp'' \<noteq> JUndefined
          then Inl exp_conflict
          else if expiresIn = []
          then Inl (new_Error ([CHR 0x22] @ ''expiresIn'' @ [CHR 0x22]
                     @ '' should be a number of seconds or string representing a timespan''))
          else
            (case timespan expiresIn (issued_at fs now) of
               None \<Rightarrow>
                 Inl (new_Error ([CHR 0x22] @ ''expiresIn'' @ [CHR 0x22]
                   @ '' should be a number of seconds or string representing a timespan eg: ''
                   @ [CHR 0x22] @ ''1d'' @ [CHR 0x22] @ '', '' @ [CHR 0x22] @ ''20h''
                   @ [CHR 0x22] @ '', 60''))
             | Some e \<Rightarrow>
                 Inr (jws_sign P jwt_header
                        (JObj (set_prop ''exp'' (JNum e)
                                 (set_prop ''iat'' (JNum (issued_at fs now)) fs)))
                        secret)))"

definition jsonwebtoken_sign ::
  "primitives \<Rightarrow> json \<Rightarrow> string \<Rightarrow> string \<Rightarrow> int \<Rightarrow> js_error + string" where
  "jsonwebtoken_sign P payload secretOrPrivateKey expiresIn now =
     (if secretOrPrivateKey = []
      then Inl (new_Error ''secretOrPrivateKey must have a value'')
      else if private_key P secretOrPrivateKey
      then Inl (new_Error ''secretOrPrivateKey must be a symmetric key when using HS256'')
      else
        (case payload of
           JUndefined \<Rightarrow> Inl (new_Error ''payload is required'')
         | JObj fs \<Rightarrow> sign_object P fs secretOrPrivateKey expiresIn now
         | JNull \<Rightarrow>
             Inl (new_Error (''Expected '' @ [CHR 0x22] @ ''payload'' @ [CHR 0x22]
                    @ '' to be a plain object.''))
         | JArr _ \<Rightarrow>
             Inl (new_Error (''Expected '' @ [CHR 0x22] @ ''payload'' @ [CHR 0x22]
                    @ '' to be a plain object.''))
         | _ \<Rightarrow>
             Inl (new_Error (''invalid expiresIn option for '' @ typeof payload
                    @ '' payload''))))"

subsection \<open>Verifying\<close>

text \<open>\<^verbatim>\<open>s.split(d)\<close>: the pieces between the separators, at least one.\<close>

fun split_on :: "char \<Rightarrow> string \<Rightarrow> string list" where
  "split_on d [] = [[]]"
| "split_on d (c # cs) =
     (if c = d then [] # split_on d cs
      else (case split_on d cs of
              [] \<Rightarrow> [[c]]
            | w # ws \<Rightarrow> (c # w) # ws))"

definition b64url_char :: "char \<Rightarrow> bool" where
  "b64url_char c =
     (c \<in> set ''ABCDEFGHIJKLMNOPQRSTUVWXYZabcdefghijklmnopqrstuvwxyz0123456789-_'')"

definition is_space :: "char \<Rightarrow> bool" where
  "is_space c = (c \<in> set [CHR '' '', CHR 0x09, CHR 0x0A, CHR 0x0B, CHR 0x0C, CHR 0x0D])"

definition trim :: "string \<Rightarrow> string" where
  "trim s = rev (dropWhile is_space (rev (dropWhile is_space s)))"

text \<open>
  A payload that is a string is parsed once more and replaced when the result is
  an object.
\<close>

definition reparse :: "primitives \<Rightarrow> json \<Rightarrow> json" where
  "reparse P v =
     (case v of
        JStr t \<Rightarrow>
          (case json_parse P t of
             Some (JObj fs) \<Rightarrow> JObj fs
           | Some (JArr xs) \<Rightarrow> JArr xs
           | _ \<Rightarrow> v)
      | _ \<Rightarrow> v)"

text \<open>
  Decoding the three parts: \<open>Inr None\<close> when the text is not a well-formed
  token (the package's \<^verbatim>\<open>null\<close>), \<open>Inl\<close> when parsing the payload throws,
  otherwise the header and the payload.
\<close>

definition decode :: "primitives \<Rightarrow> string list \<Rightarrow> js_error + (json \<times> json) option" where
  "decode P parts =
     (let h = parts ! 0; p = parts ! 1; s = parts ! 2 in
      if h = [] \<or> p = [] \<or> \<not> list_all b64url_char h \<or> \<not> list_all b64url_char p
         \<or> \<not> list_all b64url_char s
      then Inr None
      else
        (case json_parse P (unb64 P h) of
           None \<Rightarrow> Inr None
         | Some header \<Rightarrow>
             if \<not> truthy header then Inr None
             else if get_prop header ''typ'' = JStr ''JWT''
             then (case json_parse P (unb64 P p) of
                     None \<Rightarrow> Inl (JsError ''SyntaxError'' ''Unexpected token'' None)
                   | Some payload \<Rightarrow> Inr (Some (header, reparse P payload)))
             else Inr (Some (header, reparse P (JStr (unb64 P p))))))"

definition HS_SUPPORTED_ALGS :: "string list" where
  "HS_SUPPORTED_ALGS = [''HS256'', ''HS384'', ''HS512'']"

text \<open>The checks on the payload once the signature is accepted.\<close>

definition check_claims :: "json \<Rightarrow> int \<Rightarrow> js_error + json" where
  "check_claims payload clockTimestamp =
     (if payload = JNull
      then Inl (JsError ''TypeError'' ''Cannot read properties of null'' None)
      else
        (case (case get_prop payload ''nbf'' of
                 JUndefined \<Rightarrow> None
               | JNum nbf \<Rightarrow>
                   if nbf > clockTimestamp then Some (NotBeforeError ''jwt not active'')
                   else None
               | _ \<Rightarrow> Some (JsonWebTokenError ''invalid nbf value'')) of
           Some e \<Rightarrow> Inl e
         | None \<Rightarrow>
             (case get_prop payload ''exp'' of
                JUndefined \<Rightarrow> Inr payload
              | JNum expiry \<Rightarrow>
                  if clockTimestamp \<ge> expiry then Inl (TokenExpiredError ''jwt expired'')
                  else Inr payload
              | _ \<Rightarrow> Inl (JsonWebTokenError ''invalid exp value''))))"

definition header_alg :: "json \<Rightarrow> string option" where
  "header_alg header = (case get_prop header ''alg'' of JStr a \<Rightarrow> Some a | _ \<Rightarrow> None)"

definition signature_valid ::
  "primitives \<Rightarrow> json \<Rightarrow> string list \<Rightarrow> string \<Rightarrow> js_error + unit" where
  "signature_valid P header parts secretOrPublicKey =
     (let input = parts ! 0 @ ''.'' @ parts ! 1;
          algorithms = (if public_key P secretOrPublicKey
                        then key_algorithms P secretOrPublicKey
                        else HS_SUPPORTED_ALGS)
      in case header_alg header of
           None \<Rightarrow> Inl (JsonWebTokenError ''invalid algorithm'')
         | Some alg \<Rightarrow>
             if alg \<notin> set algorithms then Inl (JsonWebTokenError ''invalid algorithm'')
             else if take 2 alg = ''HS'' \<and> public_key P secretOrPublicKey
             then Inl (JsonWebTokenError
                    (''secretOrPublicKey must be a symmetric key when using '' @ alg))
             else if public_key P secretOrPublicKey
             then (if asym_verify P alg secretOrPublicKey input (parts ! 2) then Inr ()
                   else Inl (JsonWebTokenError ''invalid signature''))
             else if parts ! 2 = hmac P alg secretOrPublicKey input then Inr ()
             else Inl (JsonWebTokenError ''invalid signature''))"

definition jsonwebtoken_verify ::
  "primitives \<Rightarrow> string \<Rightarrow> string \<Rightarrow> int \<Rightarrow> js_error + json" where
  "jsonwebtoken_verify P jwtString secretOrPublicKey now =
     (if jwtString = [] then Inl (JsonWebTokenError ''jwt must be provided'')
      else if length (split_on CHR ''.'' jwtString) \<noteq> 3
      then Inl (JsonWebTokenError ''jwt malformed'')
      else
        (case decode P (split_on CHR ''.'' jwtString) of
           Inl e \<Rightarrow> Inl e
         | Inr None \<Rightarrow> Inl (JsonWebTokenError ''invalid token'')
         | Inr (Some (header, payload)) \<Rightarrow>
             if trim (split_on CHR ''.'' jwtString ! 2) = [] \<and> secretOrPublicKey \<noteq> []
             then Inl (JsonWebTokenError ''jwt signature is required'')
             else if trim (split_on CHR ''.'' jwtString ! 2) \<noteq> [] \<and> secretOrPublicKey = []
             then Inl (JsonWebTokenError ''secret or public key must be provided'')
             else if trim (split_on CHR ''.'' jwtString ! 2) = []
             then Inl (JsonWebTokenError
                    (''please specify '' @ [CHR 0x22] @ ''none'' @ [CHR 0x22] @ '' in ''
                     @ [CHR 0x22] @ ''algorithms'' @ [CHR 0x22]
                     @ '' to verify unsigned tokens''))
             else
               (case signature_valid P header (split_on CHR ''.'' jwtString)
                       secretOrPublicKey of
                  Inl e \<Rightarrow> Inl e
                | Inr _ \<Rightarrow> check_claims payload (now div 1000))))"

definition jsonwebtoken :: "primitives \<Rightarrow> jwt_module" where
  "jsonwebtoken P =
     \<lparr>jwt_sign = jsonwebtoken_sign P, jwt_verify = jsonwebtoken_verify P\<rparr>"

section \<open>Reference primitives\<close>

text \<open>
  An executable instance of the primitives, for running the model on concrete
  inputs: JSON text and unpadded base64url as Node writes and reads them, no
  secret that reads as key material, and a keyed checksum in the place of
  HMAC-SHA256 (the properties below hold for any function in that place).
\<close>

subsection \<open>base64url\<close>

definition b64_alphabet :: string where
  "b64_alphabet = ''ABCDEFGHIJKLMNOPQRSTUVWXYZabcdefghijklmnopqrstuvwxyz0123456789-_''"

definition b64_digit :: "int \<Rightarrow> char" where
  "b64_digit n = b64_alphabet ! nat (n mod 64)"

definition b64_index :: "char \<Rightarrow> int" where
  "b64_index c = int (length (takeWhile (\<lambda>x. x \<noteq> c) b64_alphabet))"

fun b64url_encode :: "string \<Rightarrow> string" where
  "b64url_encode (a # b # c # rest) =
     (let n = (of_char a * 256 + of_char b) * 256 + of_char c
      in b64_digit (n div 262144) # b64_digit (n div 4096) # b64_digit (n div 64)
           # b64_digit n # b64url_encode rest)"
| "b64url_encode [a, b] =
     (let n = (of_char a * 256 + of_char b) * 4
      in [b64_digit (n div 4096), b64_digit (n div 64), b64_digit n])"
| "b64url_encode [a] =
     (let n = of_char a * 16 in [b64_digit (n div 64), b64_digit n])"
| "b64url_encode [] = []"

fun b64url_decode :: "string \<Rightarrow> string" where
  "b64url_decode (a # b # c # d # rest) =
     (let n = ((b64_index a * 64 + b64_index b) * 64 + b64_index c) * 64 + b64_index d
      in char_of (n div 65536) # char_of (n div 256) # char_of n # b64url_decode rest)"
| "b64url_decode [a, b, c] =
     (let n = (b64_index a * 64 + b64_index b) * 64 + b64_index c
      in [char_of (n div 1024), char_of (n div 4)])"
| "b64url_decode [a, b] = [char_of ((b64_index a * 64 + b64_index b) div 16)]"
| "b64url_decode _ = []"

subsection \<open>Writing JSON\<close>

function show_digits :: "int \<Rightarrow> string" where
  "show_digits n =
     (if n < 10 then [char_of (48 + n)]
      else show_digits (n div 10) @ [char_of (48 + n mod 10)])"
  by pat_completeness auto
termination
  by (relation "measure nat") auto

definition show_int :: "int \<Rightarrow> string" where
  "show_int i = (if i < 0 then CHR ''-'' # show_digits (- i) else show_digits i)"

definition hex_digit :: "nat \<Rightarrow> char" where
  "hex_digit n = ''0123456789abcdef'' ! (n mod 16)"

definition escape_char :: "char \<Rightarrow> string" where
  "escape_char c =
     (if c = CHR 0x22 then [CHR 0x5C, CHR 0x22]
      else if c = CHR 0x5C then [CHR 0x5C, CHR 0x5C]
      else if c = CHR 0x08 then [CHR 0x5C, CHR ''b'']
      else if c = CHR 0x0C then [CHR 0x5C, CHR ''f'']
      else if c = CHR 0x0A then [CHR 0x5C, CHR ''n'']
      else if c = CHR 0x0D then [CHR 0x5C, CHR ''r'']
      else if c = CHR 0x09 then [CHR 0x5C, CHR ''t'']
      else if (of_char c :: nat) < 32
      then [CHR 0x5C, CHR ''u'', CHR ''0'', CHR ''0'',
            hex_digit (of_char c div 16), hex_digit (of_char c)]
      else [c])"

definition quote :: "string \<Rightarrow> string" where
  "quote s = [CHR 0x22] @ concat (map escape_char s) @ [CHR 0x22]"

fun commas :: "string list \<Rightarrow> string" where
  "commas [] = []"
| "commas [x] = x"
| "commas (x # y # zs) = x @ '','' @ commas (y # zs)"

text \<open>
  \<^verbatim>\<open>JSON.stringify\<close>: a property whose value is \<^verbatim>\<open>undefined\<close> is left out,
  an array element that is \<^verbatim>\<open>undefined\<close> is written \<^verbatim>\<open>null\<close>.
\<close>

fun stringify :: "json \<Rightarrow> string"
  and stringify_elems :: "json list \<Rightarrow> string list"
  and stringify_members :: "(string \<times> json) list \<Rightarrow> string list" where
  "stringify JUndefined = ''undefined''"
| "stringify JNull = ''null''"
| "stringify (JBool b) = (if b then ''true'' else ''false'')"
| "stringify (JNum n) = show_int n"
| "stringify (JStr s) = quote s"
| "stringify (JArr xs) = ''['' @ commas (stringify_elems xs) @ '']''"
| "stringify (JObj fs) = ''{'' @ commas (stringify_members fs) @ ''}''"
| "stringify_elems [] = []"
| "stringify_elems (x # xs) =
     (if x = JUndefined then ''null'' else stringify x) # stringify_elems xs"
| "stringify_members [] = []"
| "stringify_members (f # fs) =
     (if snd f = JUndefined then stringify_members fs
      else (quote (fst f) @ '':'' @ stringify (snd f)) # stringify_members fs)"

subsection \<open>Reading JSON\<close>

definition is_json_ws :: "char \<Rightarrow> bool" where
  "is_json_ws c = (c \<in> set [CHR '' '', CHR 0x09, CHR 0x0A, CHR 0x0D])"

definition skip_ws :: "string \<Rightarrow> string" where
  "skip_ws s = dropWhile is_json_ws s"

definition hex_val :: "char \<Rightarrow> nat option" where
  "hex_val c =
     (if is_digit c then Some (of_char c - 48)
      else if c \<in> set ''abcdef'' then Some (of_char c - 87)
      else if c \<in> set ''ABCDEF'' then Some (of_char c - 55)
      else None)"

definition hex4 :: "string \<Rightarrow> nat option" where
  "hex4 s =
     (case map hex_val (take 4 s) of
        [Some a, Some b, Some c, Some d] \<Rightarrow> Some (((a * 16 + b) * 16 + c) * 16 + d)
      | _ \<Rightarrow> None)"

text \<open>A code point below \<open>0x10000\<close> as UTF-8 bytes.\<close>

definition utf8 :: "nat \<Rightarrow> string" where
  "utf8 n =
     (if n < 128 then [char_of n]
      else if n < 2048 then [char_of (192 + n div 64), char_of (128 + n mod 64)]
      else [char_of (224 + n div 4096), char_of (128 + n div 64 mod 64),
            char_of (128 + n mod 64)])"

definition unescape :: "char \<Rightarrow> string option" where
  "unescape e =
     (if e = CHR 0x22 \<or> e = CHR 0x5C \<or> e = CHR ''/'' then Some [e]
      else if e = CHR ''b'' then Some [CHR 0x08]
      else if e = CHR ''f'' then Some [CHR 0x0C]
      else if e = CHR ''n'' then Some [CHR 0x0A]
      else if e = CHR ''r'' then Some [CHR 0x0D]
      else if e = CHR ''t'' then Some [CHR 0x09]
      else None)"

text \<open>The text of a string after its opening quote, and what follows the closing one.\<close>

fun parse_string :: "string \<Rightarrow> (string \<times> string) option" where
  "parse_string [] = None"
| "parse_string [c] = (if c = CHR 0x22 then Some ([], []) else None)"
| "parse_string (c # e # cs) =
     (if c = CHR 0x22 then Some ([], e # cs)
      else if c = CHR 0x5C then
        (if e = CHR ''u'' then
           (case hex4 cs of
              None \<Rightarrow> None
            | Some n \<Rightarrow>
                (case parse_string (drop 4 cs) of
                   None \<Rightarrow> None
                 | Some (t, r) \<Rightarrow> Some (utf8 n @ t, r)))
         else
           (case unescape e of
              None \<Rightarrow> None
            | Some u \<Rightarrow>
                (case parse_string cs of
                   None \<Rightarrow> None
                 | Some (t, r) \<Rightarrow> Some (u @ t, r))))
      else if (of_char c :: nat) < 32 then None
      else (case parse_string (e # cs) of
              None \<Rightarrow> None
            | Some (t, r) \<Rightarrow> Some (c # t, r)))"

text \<open>
  A number: only the integers are values here, so a fraction or an exponent is
  refused, as is a leading zero.
\<close>

definition parse_number :: "string \<Rightarrow> (json \<times> string) option" where
  "parse_number s =
     (let neg = (s \<noteq> [] \<and> hd s = CHR ''-'');
          s1 = (if neg then tl s else s);
          ds = takeWhile is_digit s1;
          r = dropWhile is_digit s1
      in if ds = [] \<or> (length ds > 1 \<and> hd ds = CHR ''0'')
            \<or> (r \<noteq> [] \<and> hd r \<in> set ''.eE'')
         then None
         else Some (JNum ((if neg then - 1 else 1) * decimal ds), r))"

text \<open>
  The parser, with the number of nested calls it may still make. A property
  named twice keeps its first place and its last value.
\<close>

fun parse_value :: "nat \<Rightarrow> string \<Rightarrow> (json \<times> string) option"
  and parse_elems :: "nat \<Rightarrow> string \<Rightarrow> (json list \<times> string) option"
  and parse_members :: "nat \<Rightarrow> string \<Rightarrow> ((string \<times> json) list \<times> string) option" where
  "parse_value 0 s = None"
| "parse_value (Suc n) s =
     (case skip_ws s of
        [] \<Rightarrow> None
      | c # cs \<Rightarrow>
          if c = CHR ''{'' then
            (if skip_ws cs \<noteq> [] \<and> hd (skip_ws cs) = CHR ''}''
             then Some (JObj [], tl (skip_ws cs))
             else (case parse_members n cs of
                     None \<Rightarrow> None
                   | Some (fs, r) \<Rightarrow>
                       Some (JObj (foldl (\<lambda>acc f. set_prop (fst f) (snd f) acc) [] fs), r)))
          else if c = CHR ''['' then
            (if skip_ws cs \<noteq> [] \<and> hd (skip_ws cs) = CHR '']''
             then Some (JArr [], tl (skip_ws cs))
             else (case parse_elems n cs of
                     None \<Rightarrow> None
                   | Some (vs, r) \<Rightarrow> Some (JArr vs, r)))
          else if c = CHR 0x22 then
            (case parse_string cs of
               None \<Rightarrow> None
             | Some (t, r) \<Rightarrow> Some (JStr t, r))
          else if take 4 (c # cs) = ''true'' then Some (JBool True, drop 3 cs)
          else if take 5 (c # cs) = ''false'' then Some (JBool False, drop 4 cs)
          else if take 4 (c # cs) = ''null'' then Some (JNull, drop 3 cs)
          else parse_number (c # cs))"
| "parse_elems 0 s = None"
| "parse_elems (Suc n) s =
     (case parse_value n s of
        None \<Rightarrow> None
      | Some (v, r) \<Rightarrow>
          (case skip_ws r of
             [] \<Rightarrow> None
           | c # cs \<Rightarrow>
               if c = CHR '']'' then Some ([v], cs)
               else if c = CHR '','' then
                 (case parse_elems n cs of
                    None \<Rightarrow> None
                  | Some (vs, r') \<Rightarrow> Some (v # vs, r'))
               else None))"
| "parse_members 0 s = None"
| "parse_members (Suc n) s =
     (case skip_ws s of
        [] \<Rightarrow> None
      | q # cs \<Rightarrow>
          if q \<noteq> CHR 0x22 then None
          else
            (case parse_string cs of
               None \<Rightarrow> None
             | Some (k, r) \<Rightarrow>
                 (case skip_ws r of
                    [] \<Rightarrow> None
                  | c # r1 \<Rightarrow>
                      if c \<noteq> CHR '':'' then None
                      else
                        (case parse_value n r1 of
                           None \<Rightarrow> None
                         | Some (v, r2) \<Rightarrow>
                             (case skip_ws r2 of
                                [] \<Rightarrow> None
                              | d # r3 \<Rightarrow>
                                  if d = CHR ''}'' then Some ([(k, v)], r3)
                                  else if d = CHR '','' then
                                    (case parse_members n r3 of
                                       None \<Rightarrow> None
                                     | Some (fs, r') \<Rightarrow> Some ((k, v) # fs, r'))
                                  else None)))))"

definition parse :: "string \<Rightarrow> json option" where
  "parse s =
     (case parse_value (Suc (length s)) s of
        None \<Rightarrow> None
      | Some (v, r) \<Rightarrow> if skip_ws r = [] then Some v else None)"

subsection \<open>The instance\<close>

definition keyed_checksum :: "string \<Rightarrow> string \<Rightarrow> string \<Rightarrow> string" where
  "keyed_checksum alg key input =
     (let n = foldl (\<lambda>h c. (h * 33 + of_char c) mod 16777216) (5381::int) (alg @ key @ input)
      in b64url_encode [char_of (n div 65536), char_of (n div 256), char_of n])"

definition reference :: primitives where
  "reference =
     \<lparr>hmac = keyed_checksum,
      json_stringify = stringify,
      json_parse = parse,
      b64url = b64url_encode,
      unb64 = b64url_decode,
      private_key = (\<lambda>_. False),
      public_key = (\<lambda>_. False),
      key_algorithms = (\<lambda>_. []),
      asym_verify = (\<lambda>_ _ _ _. False)\<rparr>"

section \<open>What the properties are stated with\<close>

text \<open>The one error both operations throw.\<close>

definition normalized_error :: js_error where
  "normalized_error = JsError ''Error'' ''Failed to authenticate token'' None"

text \<open>The log line written for a cause.\<close>

definition failure_entry :: "js_error \<Rightarrow> log_entry" where
  "failure_entry cause =
     \<lparr>level = ''error'', message = ''Failed to authenticate tokern'', detail = cause\<rparr>"




text \<open>The parts of a token's text, and a token with one signature character replaced.\<close>

definition signature_segment :: "string \<Rightarrow> string" where
  "signature_segment T = last (split_on CHR ''.'' T)"


definition flip_signature_char :: "string \<Rightarrow> nat \<Rightarrow> char \<Rightarrow> string" where
  "flip_signature_char T i c =
     take (length T - length (signature_segment T)) T @ (signature_segment T)[i := c]"

section \<open>Error normalisation\<close>

lemma sign_fails:
  "jwt_sign jwt payload (JWT_SECRET_KEY env) JWT_EXPIRES_IN now = Inl cause \<Longrightarrow>
   sign jwt env now lg payload = (Inl normalized_error, lg @ [failure_entry cause])"
  by (simp add: sign_def normalized_error_def failure_entry_def new_Error_def logger_error_def)

lemma sign_returns:
  "jwt_sign jwt payload (JWT_SECRET_KEY env) JWT_EXPIRES_IN now = Inr token \<Longrightarrow>
   sign jwt env now lg payload = (Inr token, lg)"
  by (simp add: sign_def)

lemma verify_fails:
  "jwt_verify jwt token (JWT_SECRET_KEY env) now = Inl cause \<Longrightarrow>
   verify jwt env now lg token = (Inl normalized_error, lg @ [failure_entry cause])"
  by (simp add: verify_def normalized_error_def failure_entry_def new_Error_def logger_error_def)

lemma verify_returns:
  "jwt_verify jwt token (JWT_SECRET_KEY env) now = Inr payload \<Longrightarrow>
   verify jwt env now lg token = (Inr payload, lg)"
  by (simp add: verify_def)

lemma sign_thrown:
  "fst (sign jwt env now lg payload) = Inl e \<Longrightarrow>
   \<exists>cause. jwt_sign jwt payload (JWT_SECRET_KEY env) JWT_EXPIRES_IN now = Inl cause
     \<and> e = normalized_error
     \<and> snd (sign jwt env now lg payload) = lg @ [failure_entry cause]"
  by (cases "jwt_sign jwt payload (JWT_SECRET_KEY env) JWT_EXPIRES_IN now")
     (auto simp: sign_fails sign_returns)

lemma verify_thrown:
  "fst (verify jwt env now lg token) = Inl e \<Longrightarrow>
   \<exists>cause. jwt_verify jwt token (JWT_SECRET_KEY env) now = Inl cause
     \<and> e = normalized_error
     \<and> snd (verify jwt env now lg token) = lg @ [failure_entry cause]"
  by (cases "jwt_verify jwt token (JWT_SECRET_KEY env) now")
     (auto simp: verify_fails verify_returns)

lemma sign_returned:
  "fst (sign jwt env now lg payload) = Inr t \<Longrightarrow>
   jwt_sign jwt payload (JWT_SECRET_KEY env) JWT_EXPIRES_IN now = Inr t
     \<and> snd (sign jwt env now lg payload) = lg"
  by (cases "jwt_sign jwt payload (JWT_SECRET_KEY env) JWT_EXPIRES_IN now")
     (auto simp: sign_fails sign_returns)

lemma verify_returned:
  "fst (verify jwt env now lg token) = Inr p \<Longrightarrow>
   jwt_verify jwt token (JWT_SECRET_KEY env) now = Inr p
     \<and> snd (verify jwt env now lg token) = lg"
  by (cases "jwt_verify jwt token (JWT_SECRET_KEY env) now")
     (auto simp: verify_fails verify_returns)

text \<open>Concrete runs with the reference primitives.\<close>

lemma run_sign_exp:
  "sign (jsonwebtoken reference) Map.empty 1700000000123 []
     (JObj [(''userId'', JNum 42), (''role'', JStr ''user''), (''exp'', JNum 1800000000)])
   = (Inl normalized_error, [failure_entry exp_conflict])"
  by code_simp

lemma run_verify_garbage:
  "verify (jsonwebtoken reference) Map.empty 1700000000123 [] ''not.a.token''
   = (Inl normalized_error, [failure_entry (JsonWebTokenError ''invalid token'')])"
  by code_simp

lemma run_sign:
  "sign (jsonwebtoken reference) Map.empty 1700000000123 []
     (JObj [(''userId'', JNum 42), (''role'', JStr ''user'')])
   = (Inr ''eyJhbGciOiJIUzI1NiIsInR5cCI6IkpXVCJ9.eyJ1c2VySWQiOjQyLCJyb2xlIjoidXNlciIsImlhdCI6MTcwMDAwMDAwMCwiZXhwIjoxNzAwMDg2NDAwfQ.SoXs'', [])"
  by code_simp

lemma run_verify:
  "verify (jsonwebtoken reference) Map.empty 1700000005000 []
     ''eyJhbGciOiJIUzI1NiIsInR5cCI6IkpXVCJ9.eyJ1c2VySWQiOjQyLCJyb2xlIjoidXNlciIsImlhdCI6MTcwMDAwMDAwMCwiZXhwIjoxNzAwMDg2NDAwfQ.SoXs''
   = (Inr (JObj [(''userId'', JNum 42), (''role'', JStr ''user''),
                 (''iat'', JNum 1700000000), (''exp'', JNum 1700086400)]), [])"
  by code_simp

text \<open>
  C10. The error thrown by a failing sign and by a failing verify is the same
  plain Error with the message 'Failed to authenticate token' and no cause
  attached; the library's error reaches the log only.
\<close>

theorem thrown_error_is_plain:
  "(fst (sign jwt env now lg payload) = Inl e \<longrightarrow>
      e = JsError ''Error'' ''Failed to authenticate token'' None
      \<and> (\<exists>cause. jwt_sign jwt payload (JWT_SECRET_KEY env) JWT_EXPIRES_IN now = Inl cause
            \<and> detail (last (snd (sign jwt env now lg payload))) = cause))
   \<and> (fst (verify jwt env' now' lg' token) = Inl e' \<longrightarrow>
      e' = JsError ''Error'' ''Failed to authenticate token'' None
      \<and> (\<exists>cause. jwt_verify jwt token (JWT_SECRET_KEY env') now' = Inl cause
            \<and> detail (last (snd (verify jwt env' now' lg' token))) = cause))"
proof (intro conjI impI)
  assume "fst (sign jwt env now lg payload) = Inl e"
  from sign_thrown [OF this]
  show "e = JsError ''Error'' ''Failed to authenticate token'' None"
    and "\<exists>cause. jwt_sign jwt payload (JWT_SECRET_KEY env) JWT_EXPIRES_IN now = Inl cause
            \<and> detail (last (snd (sign jwt env now lg payload))) = cause"
    by (auto simp: normalized_error_def failure_entry_def)
next
  assume "fst (verify jwt env' now' lg' token) = Inl e'"
  from verify_thrown [OF this]
  show "e' = JsError ''Error'' ''Failed to authenticate token'' None"
    and "\<exists>cause. jwt_verify jwt token (JWT_SECRET_KEY env') now' = Inl cause
            \<and> detail (last (snd (verify jwt env' now' lg' token))) = cause"
    by (auto simp: normalized_error_def failure_entry_def)
qed

theorem thrown_error_is_plain_witness:
  "fst (sign (jsonwebtoken reference) Map.empty 1700000000123 []
          (JObj [(''userId'', JNum 42), (''role'', JStr ''user''), (''exp'', JNum 1800000000)]))
     = Inl (JsError ''Error'' ''Failed to authenticate token'' None)
   \<and> fst (verify (jsonwebtoken reference) Map.empty 1700000000123 [] ''not.a.token'')
     = Inl (JsError ''Error'' ''Failed to authenticate token'' None)
   \<and> err_cause (JsError ''Error'' ''Failed to authenticate token'' None) = None"
  using thrown_error_is_plain
    [of "jsonwebtoken reference" Map.empty 1700000000123 "[]"
        "JObj [(''userId'', JNum 42), (''role'', JStr ''user''), (''exp'', JNum 1800000000)]"
        "JsError ''Error'' ''Failed to authenticate token'' None"
        Map.empty 1700000000123 "[]" "''not.a.token''"
        "JsError ''Error'' ''Failed to authenticate token'' None"]
  by (simp add: run_sign_exp run_verify_garbage normalized_error_def)

section \<open>The log\<close>

text \<open>
  C8. A failing sign or verify appends exactly one line to the log: level error,
  the fixed message, and the error the library threw. A successful one leaves
  the log as it was.
\<close>

theorem failure_logged_once:
  "(isl (fst (sign jwt env now lg payload)) \<longrightarrow>
      (\<exists>cause. jwt_sign jwt payload (JWT_SECRET_KEY env) JWT_EXPIRES_IN now = Inl cause
         \<and> snd (sign jwt env now lg payload)
             = lg @ [\<lparr>level = ''error'', message = ''Failed to authenticate tokern'',
                      detail = cause\<rparr>]))
   \<and> (\<not> isl (fst (sign jwt env now lg payload)) \<longrightarrow>
      snd (sign jwt env now lg payload) = lg)
   \<and> (isl (fst (verify jwt env now lg token)) \<longrightarrow>
      (\<exists>cause. jwt_verify jwt token (JWT_SECRET_KEY env) now = Inl cause
         \<and> snd (verify jwt env now lg token)
             = lg @ [\<lparr>level = ''error'', message = ''Failed to authenticate tokern'',
                      detail = cause\<rparr>]))
   \<and> (\<not> isl (fst (verify jwt env now lg token)) \<longrightarrow>
      snd (verify jwt env now lg token) = lg)"
proof -
  have s: "isl (fst (sign jwt env now lg payload)) \<longrightarrow>
      (\<exists>cause. jwt_sign jwt payload (JWT_SECRET_KEY env) JWT_EXPIRES_IN now = Inl cause
         \<and> snd (sign jwt env now lg payload) = lg @ [failure_entry cause])"
    by (cases "jwt_sign jwt payload (JWT_SECRET_KEY env) JWT_EXPIRES_IN now")
       (simp_all add: sign_fails sign_returns)
  have s': "\<not> isl (fst (sign jwt env now lg payload)) \<longrightarrow>
      snd (sign jwt env now lg payload) = lg"
    by (cases "jwt_sign jwt payload (JWT_SECRET_KEY env) JWT_EXPIRES_IN now")
       (simp_all add: sign_fails sign_returns)
  have v: "isl (fst (verify jwt env now lg token)) \<longrightarrow>
      (\<exists>cause. jwt_verify jwt token (JWT_SECRET_KEY env) now = Inl cause
         \<and> snd (verify jwt env now lg token) = lg @ [failure_entry cause])"
    by (cases "jwt_verify jwt token (JWT_SECRET_KEY env) now")
       (simp_all add: verify_fails verify_returns)
  have v': "\<not> isl (fst (verify jwt env now lg token)) \<longrightarrow>
      snd (verify jwt env now lg token) = lg"
    by (cases "jwt_verify jwt token (JWT_SECRET_KEY env) now")
       (simp_all add: verify_fails verify_returns)
  from s s' v v' show ?thesis
    by (simp add: failure_entry_def)
qed

theorem failure_logged_once_witness:
  "isl (fst (sign (jsonwebtoken reference) Map.empty 1700000000123 []
          (JObj [(''userId'', JNum 42), (''role'', JStr ''user''), (''exp'', JNum 1800000000)])))
   \<and> length (snd (sign (jsonwebtoken reference) Map.empty 1700000000123 []
          (JObj [(''userId'', JNum 42), (''role'', JStr ''user''), (''exp'', JNum 1800000000)])))
       = 1
   \<and> isl (fst (verify (jsonwebtoken reference) Map.empty 1700000000123 [] ''not.a.token''))
   \<and> length (snd (verify (jsonwebtoken reference) Map.empty 1700000000123 [] ''not.a.token''))
       = 1
   \<and> \<not> isl (fst (sign (jsonwebtoken reference) Map.empty 1700000000123 []
          (JObj [(''userId'', JNum 42), (''role'', JStr ''user'')])))
   \<and> snd (sign (jsonwebtoken reference) Map.empty 1700000000123 []
          (JObj [(''userId'', JNum 42), (''role'', JStr ''user'')])) = []
   \<and> \<not> isl (fst (verify (jsonwebtoken reference) Map.empty 1700000005000 []
     ''eyJhbGciOiJIUzI1NiIsInR5cCI6IkpXVCJ9.eyJ1c2VySWQiOjQyLCJyb2xlIjoidXNlciIsImlhdCI6MTcwMDAwMDAwMCwiZXhwIjoxNzAwMDg2NDAwfQ.SoXs''))
   \<and> snd (verify (jsonwebtoken reference) Map.empty 1700000005000 []
     ''eyJhbGciOiJIUzI1NiIsInR5cCI6IkpXVCJ9.eyJ1c2VySWQiOjQyLCJyb2xlIjoidXNlciIsImlhdCI6MTcwMDAwMDAwMCwiZXhwIjoxNzAwMDg2NDAwfQ.SoXs'') = []"
  using
    failure_logged_once
      [of "jsonwebtoken reference" Map.empty 1700000000123 "[]"
          "JObj [(''userId'', JNum 42), (''role'', JStr ''user''), (''exp'', JNum 1800000000)]"
          "''not.a.token''"]
    failure_logged_once
      [of "jsonwebtoken reference" Map.empty 1700000000123 "[]"
          "JObj [(''userId'', JNum 42), (''role'', JStr ''user'')]" "''x''"]
    failure_logged_once
      [of "jsonwebtoken reference" Map.empty 1700000005000 "[]" JNull
          "''eyJhbGciOiJIUzI1NiIsInR5cCI6IkpXVCJ9.eyJ1c2VySWQiOjQyLCJyb2xlIjoidXNlciIsImlhdCI6MTcwMDAwMDAwMCwiZXhwIjoxNzAwMDg2NDAwfQ.SoXs''"]
  by (simp add: run_sign_exp run_verify_garbage run_sign run_verify)

section \<open>One error for both operations\<close>

theorem failures_indistinguishable:
  "fst (sign (jsonwebtoken reference) Map.empty 1700000000123 []
          (JObj [(''userId'', JNum 42), (''role'', JStr ''user''), (''exp'', JNum 1800000000)]))
     = Inl (JsError ''Error'' ''Failed to authenticate token'' None)
   \<and> fst (verify (jsonwebtoken reference) Map.empty 1700000000123 [] ''not.a.token'')
     = Inl (JsError ''Error'' ''Failed to authenticate token'' None)"
  by (simp add: run_sign_exp run_verify_garbage normalized_error_def)

text \<open>
  C3, as the code has it. Every failure inside sign and every failure inside
  verify is re-raised as one normalized error, and it is the same error value
  for both operations; a result of the library is passed on unchanged.
\<close>

theorem failures_share_one_error:
  "(jwt_sign jwt payload (JWT_SECRET_KEY env) JWT_EXPIRES_IN now = Inl cause \<longrightarrow>
      fst (sign jwt env now lg payload)
        = Inl (JsError ''Error'' ''Failed to authenticate token'' None))
   \<and> (jwt_verify jwt' token (JWT_SECRET_KEY env') now' = Inl cause' \<longrightarrow>
      fst (verify jwt' env' now' lg' token)
        = Inl (JsError ''Error'' ''Failed to authenticate token'' None))
   \<and> (jwt_sign jwt payload (JWT_SECRET_KEY env) JWT_EXPIRES_IN now = Inr t \<longrightarrow>
      fst (sign jwt env now lg payload) = Inr t)
   \<and> (jwt_verify jwt' token (JWT_SECRET_KEY env') now' = Inr p \<longrightarrow>
      fst (verify jwt' env' now' lg' token) = Inr p)"
  by (simp add: sign_fails sign_returns verify_fails verify_returns normalized_error_def)

theorem failures_share_one_error_witness:
  "jwt_sign (jsonwebtoken reference)
      (JObj [(''userId'', JNum 42), (''role'', JStr ''user''), (''exp'', JNum 1800000000)])
      (JWT_SECRET_KEY Map.empty) JWT_EXPIRES_IN 1700000000123 = Inl exp_conflict
   \<and> jwt_verify (jsonwebtoken reference) ''not.a.token'' (JWT_SECRET_KEY Map.empty)
        1700000000123 = Inl (JsonWebTokenError ''invalid token'')
   \<and> projl (fst (sign (jsonwebtoken reference) Map.empty 1700000000123 []
          (JObj [(''userId'', JNum 42), (''role'', JStr ''user''), (''exp'', JNum 1800000000)])))
     = projl (fst (verify (jsonwebtoken reference) Map.empty 1700000000123 [] ''not.a.token''))"
proof -
  have a: "jwt_sign (jsonwebtoken reference)
      (JObj [(''userId'', JNum 42), (''role'', JStr ''user''), (''exp'', JNum 1800000000)])
      (JWT_SECRET_KEY Map.empty) JWT_EXPIRES_IN 1700000000123 = Inl exp_conflict"
    by code_simp
  have b: "jwt_verify (jsonwebtoken reference) ''not.a.token'' (JWT_SECRET_KEY Map.empty)
        1700000000123 = Inl (JsonWebTokenError ''invalid token'')"
    by code_simp
  from a b
    failures_share_one_error
      [of "jsonwebtoken reference"
          "JObj [(''userId'', JNum 42), (''role'', JStr ''user''), (''exp'', JNum 1800000000)]"
          Map.empty 1700000000123 exp_conflict "[]"
          "jsonwebtoken reference" "''not.a.token''" Map.empty 1700000000123
          "JsonWebTokenError ''invalid token''" "[]"]
  show ?thesis by simp
qed

section \<open>The secret\<close>

lemma JWT_SECRET_KEY_nonempty: "JWT_SECRET_KEY env \<noteq> []"
  by (simp add: JWT_SECRET_KEY_def split: option.split)

text \<open>
  C7. When the environment supplies no secret, sign and verify both hand the
  one hardcoded default to the library, so they work with the same key and
  nothing fails when the module is loaded.
\<close>

theorem default_secret_fallback:
  assumes "env ''JWT_SECRET'' = None"
  shows "JWT_SECRET_KEY env = ''your_default_secret_key''
    \<and> sign jwt env now lg payload =
        (case jwt_sign jwt payload ''your_default_secret_key'' ''1d'' now of
           Inr t \<Rightarrow> (Inr t, lg)
         | Inl e \<Rightarrow> (Inl normalized_error, lg @ [failure_entry e]))
    \<and> verify jwt env now' lg' token =
        (case jwt_verify jwt token ''your_default_secret_key'' now' of
           Inr p \<Rightarrow> (Inr p, lg')
         | Inl e \<Rightarrow> (Inl normalized_error, lg' @ [failure_entry e]))"
proof -
  from assms have k: "JWT_SECRET_KEY env = ''your_default_secret_key''"
    by (simp add: JWT_SECRET_KEY_def)
  have s: "sign jwt env now lg payload =
        (case jwt_sign jwt payload ''your_default_secret_key'' ''1d'' now of
           Inr t \<Rightarrow> (Inr t, lg)
         | Inl e \<Rightarrow> (Inl normalized_error, lg @ [failure_entry e]))"
    unfolding sign_def k JWT_EXPIRES_IN_def
    by (simp add: normalized_error_def failure_entry_def new_Error_def logger_error_def
          split: sum.split)
  have v: "verify jwt env now' lg' token =
        (case jwt_verify jwt token ''your_default_secret_key'' now' of
           Inr p \<Rightarrow> (Inr p, lg')
         | Inl e \<Rightarrow> (Inl normalized_error, lg' @ [failure_entry e]))"
    unfolding verify_def k
    by (simp add: normalized_error_def failure_entry_def new_Error_def logger_error_def
          split: sum.split)
  from k s v show ?thesis by simp
qed

theorem default_secret_fallback_witness:
  "(Map.empty :: string \<rightharpoonup> string) ''JWT_SECRET'' = None
   \<and> JWT_SECRET_KEY Map.empty = ''your_default_secret_key''
   \<and> jwt_sign (jsonwebtoken reference)
        (JObj [(''userId'', JNum 42), (''role'', JStr ''user'')])
        ''your_default_secret_key'' ''1d'' 1700000000123
      = Inr ''eyJhbGciOiJIUzI1NiIsInR5cCI6IkpXVCJ9.eyJ1c2VySWQiOjQyLCJyb2xlIjoidXNlciIsImlhdCI6MTcwMDAwMDAwMCwiZXhwIjoxNzAwMDg2NDAwfQ.SoXs''
   \<and> jwt_verify (jsonwebtoken reference)
        ''eyJhbGciOiJIUzI1NiIsInR5cCI6IkpXVCJ9.eyJ1c2VySWQiOjQyLCJyb2xlIjoidXNlciIsImlhdCI6MTcwMDAwMDAwMCwiZXhwIjoxNzAwMDg2NDAwfQ.SoXs''
        ''your_default_secret_key'' 1700000005000
      = Inr (JObj [(''userId'', JNum 42), (''role'', JStr ''user''),
                   (''iat'', JNum 1700000000), (''exp'', JNum 1700086400)])"
proof -
  have a: "(Map.empty :: string \<rightharpoonup> string) ''JWT_SECRET'' = None"
    by simp
  from default_secret_fallback
         [OF a, of "jsonwebtoken reference" 1700000000123 "[]"
            "JObj [(''userId'', JNum 42), (''role'', JStr ''user'')]" 1700000005000 "[]"
            "''eyJhbGciOiJIUzI1NiIsInR5cCI6IkpXVCJ9.eyJ1c2VySWQiOjQyLCJyb2xlIjoidXNlciIsImlhdCI6MTcwMDAwMDAwMCwiZXhwIjoxNzAwMDg2NDAwfQ.SoXs''"]
  show ?thesis
    by (simp add: run_sign run_verify split: sum.splits)
qed

section \<open>A payload that brings its own expiry\<close>

lemma validatePayload_number:
  "validatePayload fs = None \<Longrightarrow> (k, v) \<in> set fs \<Longrightarrow> k \<in> set registered_claims
     \<Longrightarrow> typeof v = ''number''"
  by (induction fs) (auto split: if_splits)

lemma exp_defined:
  assumes "''exp'' \<in> fst ` set fs" and "validatePayload fs = None"
  shows "get_prop (JObj fs) ''exp'' \<noteq> JUndefined"
proof -
  from assms(1) obtain v where v: "map_of fs ''exp'' = Some v"
    by (cases "map_of fs ''exp''") (auto simp: map_of_eq_None_iff)
  then have "(''exp'', v) \<in> set fs"
    by (rule map_of_SomeD)
  with assms(2) have "typeof v = ''number''"
    by (rule validatePayload_number) (simp add: registered_claims_def)
  then have "v \<noteq> JUndefined"
    by auto
  with v show ?thesis by simp
qed

lemma sign_object_exp:
  assumes "''exp'' \<in> fst ` set fs"
  shows "\<exists>cause. sign_object P fs secret expiresIn now = Inl cause
           \<and> (validatePayload fs = None \<longrightarrow> cause = exp_conflict)"
proof (cases "validatePayload fs")
  case None
  with exp_defined [OF assms] show ?thesis
    by (simp add: sign_object_def)
next
  case (Some e)
  then show ?thesis
    by (simp add: sign_object_def)
qed

lemma jsonwebtoken_sign_exp:
  assumes "''exp'' \<in> fst ` set fs"
  shows "\<exists>cause. jsonwebtoken_sign P (JObj fs) secret expiresIn now = Inl cause
           \<and> (secret \<noteq> [] \<and> \<not> private_key P secret \<and> validatePayload fs = None
                \<longrightarrow> cause = exp_conflict)"
  using sign_object_exp [OF assms, of P secret expiresIn now]
  by (auto simp: jsonwebtoken_sign_def)

text \<open>
  C9. A payload object that already has an \<^verbatim>\<open>exp\<close> property is never signed:
  sign throws the normalized error and logs the library's error, which is the
  clash with the \<^verbatim>\<open>expiresIn\<close> option whenever the secret is usable and the
  payload's registered claims are numbers.
\<close>

theorem payload_exp_rejected:
  assumes "''exp'' \<in> fst ` set fs"
  shows "fst (sign (jsonwebtoken P) env now lg (JObj fs))
           = Inl (JsError ''Error'' ''Failed to authenticate token'' None)
    \<and> (\<exists>cause. snd (sign (jsonwebtoken P) env now lg (JObj fs)) = lg @ [failure_entry cause]
          \<and> (\<not> private_key P (JWT_SECRET_KEY env) \<and> validatePayload fs = None
               \<longrightarrow> cause = exp_conflict))"
proof -
  from jsonwebtoken_sign_exp [OF assms, of P "JWT_SECRET_KEY env" JWT_EXPIRES_IN now]
  obtain cause where
    c: "jsonwebtoken_sign P (JObj fs) (JWT_SECRET_KEY env) JWT_EXPIRES_IN now = Inl cause"
    and d: "\<not> private_key P (JWT_SECRET_KEY env) \<and> validatePayload fs = None
              \<longrightarrow> cause = exp_conflict"
    using JWT_SECRET_KEY_nonempty by blast
  from c have "jwt_sign (jsonwebtoken P) (JObj fs) (JWT_SECRET_KEY env) JWT_EXPIRES_IN now
                 = Inl cause"
    by (simp add: jsonwebtoken_def)
  from sign_fails [OF this, of lg]
  have r: "sign (jsonwebtoken P) env now lg (JObj fs)
             = (Inl normalized_error, lg @ [failure_entry cause])" .
  from d show ?thesis
    unfolding r by (auto simp: normalized_error_def)
qed

theorem payload_exp_rejected_witness:
  "''exp'' \<in> fst ` set [(''userId'', JNum 42), (''role'', JStr ''user''), (''exp'', JNum 1800000000)]
   \<and> sign (jsonwebtoken reference) Map.empty 1700000000123 []
        (JObj [(''userId'', JNum 42), (''role'', JStr ''user''), (''exp'', JNum 1800000000)])
      = (Inl (JsError ''Error'' ''Failed to authenticate token'' None),
         [failure_entry exp_conflict])"
proof -
  have a: "''exp'' \<in> fst ` set [(''userId'', JNum 42), (''role'', JStr ''user''),
                                  (''exp'', JNum 1800000000)]"
    by simp
  from a payload_exp_rejected [OF a, of reference Map.empty 1700000000123 "[]"]
  show ?thesis
    by (simp add: run_sign_exp normalized_error_def)
qed

section \<open>What a result depends on\<close>

lemma jsonwebtoken_sign_second:
  assumes "now div 1000 = now' div 1000"
  shows "jsonwebtoken_sign P payload secret expiresIn now
           = jsonwebtoken_sign P payload secret expiresIn now'"
  unfolding jsonwebtoken_sign_def sign_object_def issued_at_def assms ..

lemma jsonwebtoken_verify_second:
  assumes "now div 1000 = now' div 1000"
  shows "jsonwebtoken_verify P token secret now = jsonwebtoken_verify P token secret now'"
  unfolding jsonwebtoken_verify_def assms ..

lemma run_sign_later:
  "sign (jsonwebtoken reference) Map.empty 1700000001123 []
     (JObj [(''userId'', JNum 42), (''role'', JStr ''user'')])
   = (Inr ''eyJhbGciOiJIUzI1NiIsInR5cCI6IkpXVCJ9.eyJ1c2VySWQiOjQyLCJyb2xlIjoidXNlciIsImlhdCI6MTcwMDAwMDAwMSwiZXhwIjoxNzAwMDg2NDAxfQ.z7o9'', [])"
  by code_simp

lemma run_verify_expired:
  "verify (jsonwebtoken reference) Map.empty 1700090000000 []
     ''eyJhbGciOiJIUzI1NiIsInR5cCI6IkpXVCJ9.eyJ1c2VySWQiOjQyLCJyb2xlIjoidXNlciIsImlhdCI6MTcwMDAwMDAwMCwiZXhwIjoxNzAwMDg2NDAwfQ.SoXs''
   = (Inl normalized_error, [failure_entry (TokenExpiredError ''jwt expired'')])"
  by code_simp

theorem token_depends_on_clock:
  "fst (sign (jsonwebtoken reference) Map.empty 1700000000123 []
          (JObj [(''userId'', JNum 42), (''role'', JStr ''user'')]))
     \<noteq> fst (sign (jsonwebtoken reference) Map.empty 1700000001123 []
          (JObj [(''userId'', JNum 42), (''role'', JStr ''user'')]))
   \<and> fst (verify (jsonwebtoken reference) Map.empty 1700000005000 []
     ''eyJhbGciOiJIUzI1NiIsInR5cCI6IkpXVCJ9.eyJ1c2VySWQiOjQyLCJyb2xlIjoidXNlciIsImlhdCI6MTcwMDAwMDAwMCwiZXhwIjoxNzAwMDg2NDAwfQ.SoXs'')
     \<noteq> fst (verify (jsonwebtoken reference) Map.empty 1700090000000 []
     ''eyJhbGciOiJIUzI1NiIsInR5cCI6IkpXVCJ9.eyJ1c2VySWQiOjQyLCJyb2xlIjoidXNlciIsImlhdCI6MTcwMDAwMDAwMCwiZXhwIjoxNzAwMDg2NDAwfQ.SoXs'')"
  by (simp add: run_sign run_sign_later run_verify run_verify_expired)

text \<open>
  C6, as the code has it. With the library as modelled, what sign and verify
  return, throw and log is a function of the input, the secret in use and the
  clock's whole second: two calls on equal inputs in the same second give the
  same result, whatever the log held before and whatever else the environment
  holds.
\<close>

theorem same_second_same_result:
  assumes "JWT_SECRET_KEY env = JWT_SECRET_KEY env'"
    and "now div 1000 = now' div 1000"
  shows "fst (sign (jsonwebtoken P) env now lg payload)
           = fst (sign (jsonwebtoken P) env' now' lg' payload)
    \<and> drop (length lg) (snd (sign (jsonwebtoken P) env now lg payload))
           = drop (length lg') (snd (sign (jsonwebtoken P) env' now' lg' payload))
    \<and> fst (verify (jsonwebtoken P) env now lg token)
           = fst (verify (jsonwebtoken P) env' now' lg' token)
    \<and> drop (length lg) (snd (verify (jsonwebtoken P) env now lg token))
           = drop (length lg') (snd (verify (jsonwebtoken P) env' now' lg' token))"
proof -
  have s: "jwt_sign (jsonwebtoken P) payload (JWT_SECRET_KEY env) JWT_EXPIRES_IN now
         = jwt_sign (jsonwebtoken P) payload (JWT_SECRET_KEY env') JWT_EXPIRES_IN now'"
    using assms(1) jsonwebtoken_sign_second [OF assms(2), of P payload]
    by (simp add: jsonwebtoken_def)
  have v: "jwt_verify (jsonwebtoken P) token (JWT_SECRET_KEY env) now
         = jwt_verify (jsonwebtoken P) token (JWT_SECRET_KEY env') now'"
    using assms(1) jsonwebtoken_verify_second [OF assms(2), of P token]
    by (simp add: jsonwebtoken_def)
  show ?thesis
    unfolding sign_def verify_def s v
    by (simp add: logger_error_def split: sum.split)
qed

theorem same_second_same_result_witness:
  "JWT_SECRET_KEY Map.empty = JWT_SECRET_KEY [''JWT_SECRET'' \<mapsto> ''your_default_secret_key'']
   \<and> (1700000000123 :: int) div 1000 = 1700000000999 div 1000
   \<and> fst (sign (jsonwebtoken reference) [''JWT_SECRET'' \<mapsto> ''your_default_secret_key'']
            1700000000999 [failure_entry exp_conflict]
            (JObj [(''userId'', JNum 42), (''role'', JStr ''user'')]))
      = Inr ''eyJhbGciOiJIUzI1NiIsInR5cCI6IkpXVCJ9.eyJ1c2VySWQiOjQyLCJyb2xlIjoidXNlciIsImlhdCI6MTcwMDAwMDAwMCwiZXhwIjoxNzAwMDg2NDAwfQ.SoXs''"
proof -
  have a: "JWT_SECRET_KEY Map.empty
             = JWT_SECRET_KEY [''JWT_SECRET'' \<mapsto> ''your_default_secret_key'']"
    by (simp add: JWT_SECRET_KEY_def)
  have b: "(1700000000123 :: int) div 1000 = 1700000000999 div 1000"
    by simp
  from a b
    same_second_same_result
      [OF a b, of reference "[]" "JObj [(''userId'', JNum 42), (''role'', JStr ''user'')]"
          "[failure_entry exp_conflict]" "''x''"]
  show ?thesis
    by (simp add: run_sign)
qed

section \<open>Splitting a token\<close>

lemma split_on_nonempty: "split_on d s \<noteq> []"
  by (induction s) (auto split: list.split)

lemma split_on_append: "split_on d (xs @ d # ys) = split_on d xs @ split_on d ys"
proof (induction xs)
  case Nil
  show ?case by simp
next
  case (Cons c cs)
  show ?case
  proof (cases "c = d")
    case True
    with Cons show ?thesis by simp
  next
    case False
    obtain w ws where w: "split_on d cs = w # ws"
      using split_on_nonempty [of d cs] by (cases "split_on d cs") auto
    with False Cons show ?thesis by simp
  qed
qed

lemma split_on_whole: "d \<notin> set s \<Longrightarrow> split_on d s = [s]"
  by (induction s) auto

lemma split_on_length: "length (split_on d s) = Suc (length (filter (\<lambda>c. c = d) s))"
proof (induction s)
  case Nil
  show ?case by simp
next
  case (Cons c cs)
  obtain w ws where w: "split_on d cs = w # ws"
    using split_on_nonempty [of d cs] by (cases "split_on d cs") auto
  with Cons show ?case by auto
qed

lemma split_on_three:
  assumes "d \<notin> set a" and "d \<notin> set b" and "d \<notin> set c"
  shows "split_on d (a @ [d] @ b @ [d] @ c) = [a, b, c]"
proof -
  have "split_on d (a @ d # (b @ d # c)) = split_on d a @ split_on d b @ split_on d c"
    by (simp only: split_on_append)
  with assms show ?thesis by (simp add: split_on_whole)
qed





section \<open>Properties of an object\<close>





section \<open>One day\<close>



section \<open>Signing and verifying a well-formed token\<close>



text \<open>Whatever sign returns is a header, a payload and their signature.\<close>

lemma jsonwebtoken_sign_Inr:
  assumes "jsonwebtoken_sign P payload secret expiresIn now = Inr T"
  shows "\<exists>pl. T = jws_sign P jwt_header pl secret"
proof (cases payload)
  case (JObj fs)
  with assms have "sign_object P fs secret expiresIn now = Inr T"
    by (simp add: jsonwebtoken_sign_def split: if_splits)
  then show ?thesis
    by (auto simp: sign_object_def split: option.splits if_splits)
qed (use assms in \<open>simp_all add: jsonwebtoken_sign_def split: if_splits\<close>)

lemma header_props:
  "truthy jwt_header" "get_prop jwt_header ''typ'' = JStr ''JWT''"
  "header_alg jwt_header = Some ''HS256''"
  by (simp_all add: jwt_header_def header_alg_def)





section \<open>The checks on an issued payload\<close>





section \<open>Round trip\<close>










section \<open>Expiry\<close>





section \<open>Rejected tokens\<close>

lemma decode_header:
  assumes "json_parse P (unb64 P h) = Some header"
    and "decode P [h, p, s] = Inr (Some (header', payload))"
  shows "header' = header"
  using assms by (auto simp: decode_def Let_def split: if_splits option.splits)

lemma signature_invalid:
  assumes "s \<noteq> hmac P ''HS256'' secret (h @ ''.'' @ p)"
  shows "isl (signature_valid P jwt_header [h, p, s] secret)"
  using assms
  by (auto simp: signature_valid_def header_props Let_def HS_SUPPORTED_ALGS_def)

lemma verify_wrong_signature:
  assumes parts: "split_on CHR ''.'' T = [h, p, s]"
    and hdr: "json_parse P (unb64 P h) = Some jwt_header"
    and bad: "s \<noteq> hmac P ''HS256'' secret (h @ ''.'' @ p)"
  shows "isl (jsonwebtoken_verify P T secret now)"
proof (cases "decode P [h, p, s]")
  case (Inl e)
  then show ?thesis
    by (simp add: jsonwebtoken_verify_def parts)
next
  case (Inr r)
  show ?thesis
  proof (cases r)
    case None
    with Inr show ?thesis
      by (simp add: jsonwebtoken_verify_def parts)
  next
    case (Some hp)
    obtain header payload where hp: "hp = (header, payload)"
      by (cases hp)
    with Inr Some have d: "decode P [h, p, s] = Inr (Some (header, payload))"
      by simp
    from decode_header [OF hdr d] have header: "header = jwt_header" .
    from signature_invalid [OF bad] obtain e where
      "signature_valid P jwt_header [h, p, s] secret = Inl e"
      by (cases "signature_valid P jwt_header [h, p, s] secret") auto
    with d header show ?thesis
      by (simp add: jsonwebtoken_verify_def parts)
  qed
qed

lemma verify_malformed:
  assumes "length (filter (\<lambda>x. x = CHR ''.'') T) \<noteq> 2"
  shows "isl (jsonwebtoken_verify P T secret now)"
  using assms by (simp add: jsonwebtoken_verify_def split_on_length)

lemma no_dots: "length (filter (\<lambda>x. x = d) s) = 0 \<longleftrightarrow> d \<notin> set s"
  by (auto simp: filter_empty_conv)

lemma last_segment:
  "\<exists>pre. T = pre @ last (split_on d T) \<and> d \<notin> set (last (split_on d T))"
proof (cases "d \<in> set T")
  case False
  then show ?thesis by (simp add: split_on_whole)
next
  case True
  then obtain ys zs where T: "T = ys @ d # zs" and zs: "d \<notin> set zs"
    by (meson split_list_last)
  then have "split_on d T = split_on d ys @ [zs]"
    by (simp add: split_on_append split_on_whole)
  then have "last (split_on d T) = zs" by simp
  with T zs have "T = (ys @ [d]) @ last (split_on d T) \<and> d \<notin> set (last (split_on d T))"
    by simp
  then show ?thesis by blast
qed

lemma flip_form:
  obtains pre where "T = pre @ signature_segment T"
    and "flip_signature_char T i c = pre @ (signature_segment T)[i := c]"
    and "CHR ''.'' \<notin> set (signature_segment T)"
proof -
  from last_segment [of T "CHR ''.''"] obtain pre where
    T: "T = pre @ signature_segment T" and n: "CHR ''.'' \<notin> set (signature_segment T)"
    by (auto simp: signature_segment_def)
  from T have "length T - length (signature_segment T) = length pre"
    by (metis add_diff_cancel_right' length_append)
  with T have "take (length T - length (signature_segment T)) T = pre"
    by (metis append_eq_conv_conj)
  then have f: "flip_signature_char T i c = pre @ (signature_segment T)[i := c]"
    by (simp add: flip_signature_char_def)
  show ?thesis by (rule that [OF T f n])
qed

text \<open>The token sign returned, seen through the wrapper.\<close>

lemma sign_Inr_form:
  assumes "fst (sign (jsonwebtoken P) env now lg payload) = Inr T"
  shows "\<exists>pl. T = jws_sign P jwt_header pl (JWT_SECRET_KEY env)"
proof -
  from sign_returned [OF assms]
  have "jsonwebtoken_sign P payload (JWT_SECRET_KEY env) JWT_EXPIRES_IN now = Inr T"
    by (simp add: jsonwebtoken_def)
  then show ?thesis by (rule jsonwebtoken_sign_Inr)
qed

lemma verify_isl:
  assumes "isl (jsonwebtoken_verify P T (JWT_SECRET_KEY env) now)"
  shows "fst (verify (jsonwebtoken P) env now lg T)
           = Inl (JsError ''Error'' ''Failed to authenticate token'' None)"
proof -
  from assms obtain cause where
    "jwt_verify (jsonwebtoken P) T (JWT_SECRET_KEY env) now = Inl cause"
    by (cases "jsonwebtoken_verify P T (JWT_SECRET_KEY env) now")
       (auto simp: jsonwebtoken_def)
  from verify_fails [OF this, of lg] show ?thesis
    by (simp add: normalized_error_def)
qed

text \<open>
  C4. Take any token that sign returned and replace any one character of its
  signature segment by a different character: verify throws the normalized
  error on the result. (The header is assumed to read back from its encoding,
  as JSON in base64url does.)
\<close>

theorem tampered_signature_rejected:
  assumes sg: "fst (sign (jsonwebtoken P) env now lg payload) = Inr T"
    and hdr: "json_parse P (unb64 P (b64url P (json_stringify P jwt_header))) = Some jwt_header"
    and i: "i < length (signature_segment T)"
    and c: "c \<noteq> signature_segment T ! i"
  shows "fst (verify (jsonwebtoken P) env now' lg' (flip_signature_char T i c))
           = Inl (JsError ''Error'' ''Failed to authenticate token'' None)"
proof -
  let ?dots = "\<lambda>s. length (filter (\<lambda>x. x = CHR ''.'') s)"
  let ?T' = "flip_signature_char T i c"
  let ?k = "JWT_SECRET_KEY env"
  from sign_Inr_form [OF sg] obtain pl where T: "T = jws_sign P jwt_header pl ?k" ..
  let ?h = "b64url P (json_stringify P jwt_header)"
  let ?p = "b64url P (json_stringify P pl)"
  let ?m = "hmac P ''HS256'' ?k (?h @ ''.'' @ ?p)"
  from T have form: "T = ?h @ ''.'' @ ?p @ ''.'' @ ?m"
    by (simp add: jws_sign_def secured_input_def)
  then have dT: "?dots T = ?dots ?h + ?dots ?p + ?dots ?m + 2"
    by simp
  obtain pre where pre: "T = pre @ signature_segment T"
    and T': "?T' = pre @ (signature_segment T)[i := c]"
    and sig: "CHR ''.'' \<notin> set (signature_segment T)"
    by (rule flip_form)
  from sig have "?dots (signature_segment T) = 0"
    by (rule no_dots [THEN iffD2])
  with pre have dpre: "?dots T = ?dots pre"
    by (metis add.right_neutral filter_append length_append)
  from T' have dT': "?dots ?T' = ?dots pre + ?dots ((signature_segment T)[i := c])"
    by simp
  have "isl (jsonwebtoken_verify P ?T' ?k now')"
  proof (cases "?dots ?T' = 2")
    case False
    then show ?thesis by (rule verify_malformed)
  next
    case True
    with dT dpre dT' have z: "?dots ?h = 0" "?dots ?p = 0" "?dots ?m = 0"
      and z': "?dots ((signature_segment T)[i := c]) = 0"
      by simp_all
    have nd: "CHR ''.'' \<notin> set ?h" "CHR ''.'' \<notin> set ?p" "CHR ''.'' \<notin> set ?m"
      by (rule z [THEN no_dots [THEN iffD1]])+
    from split_on_three [OF nd] form have parts: "split_on CHR ''.'' T = [?h, ?p, ?m]"
      by simp
    then have seg: "signature_segment T = ?m"
      by (simp add: signature_segment_def)
    from form have "take (length T - length ?m) T = ?h @ ''.'' @ ?p @ ''.''"
      by simp
    then have T'': "?T' = ?h @ [CHR ''.''] @ ?p @ [CHR ''.''] @ ?m[i := c]"
      by (simp add: flip_signature_char_def seg)
    from z' [THEN no_dots [THEN iffD1]] seg have "CHR ''.'' \<notin> set (?m[i := c])"
      by simp
    from split_on_three [OF nd(1,2) this] T''
    have parts': "split_on CHR ''.'' ?T' = [?h, ?p, ?m[i := c]]"
      by simp
    from i c seg have "?m[i := c] ! i \<noteq> ?m ! i"
      by simp
    then have "?m[i := c] \<noteq> ?m"
      by metis
    from verify_wrong_signature [OF parts' hdr this] show ?thesis .
  qed
  then show ?thesis by (rule verify_isl)
qed

lemma reference_header:
  "json_parse reference (unb64 reference (b64url reference (json_stringify reference jwt_header)))
     = Some jwt_header"
  by code_simp

lemma run_segment:
  "signature_segment ''eyJhbGciOiJIUzI1NiIsInR5cCI6IkpXVCJ9.eyJ1c2VySWQiOjQyLCJyb2xlIjoidXNlciIsImlhdCI6MTcwMDAwMDAwMCwiZXhwIjoxNzAwMDg2NDAwfQ.SoXs'' = ''SoXs''"
  by code_simp

lemma run_flip:
  "flip_signature_char ''eyJhbGciOiJIUzI1NiIsInR5cCI6IkpXVCJ9.eyJ1c2VySWQiOjQyLCJyb2xlIjoidXNlciIsImlhdCI6MTcwMDAwMDAwMCwiZXhwIjoxNzAwMDg2NDAwfQ.SoXs'' 0 CHR ''T'' = ''eyJhbGciOiJIUzI1NiIsInR5cCI6IkpXVCJ9.eyJ1c2VySWQiOjQyLCJyb2xlIjoidXNlciIsImlhdCI6MTcwMDAwMDAwMCwiZXhwIjoxNzAwMDg2NDAwfQ.ToXs''"
  by code_simp

theorem tampered_signature_rejected_witness:
  "fst (sign (jsonwebtoken reference) Map.empty 1700000000123 []
          (JObj [(''userId'', JNum 42), (''role'', JStr ''user'')])) = Inr ''eyJhbGciOiJIUzI1NiIsInR5cCI6IkpXVCJ9.eyJ1c2VySWQiOjQyLCJyb2xlIjoidXNlciIsImlhdCI6MTcwMDAwMDAwMCwiZXhwIjoxNzAwMDg2NDAwfQ.SoXs''
   \<and> (0 :: nat) < length (signature_segment ''eyJhbGciOiJIUzI1NiIsInR5cCI6IkpXVCJ9.eyJ1c2VySWQiOjQyLCJyb2xlIjoidXNlciIsImlhdCI6MTcwMDAwMDAwMCwiZXhwIjoxNzAwMDg2NDAwfQ.SoXs'')
   \<and> CHR ''T'' \<noteq> signature_segment ''eyJhbGciOiJIUzI1NiIsInR5cCI6IkpXVCJ9.eyJ1c2VySWQiOjQyLCJyb2xlIjoidXNlciIsImlhdCI6MTcwMDAwMDAwMCwiZXhwIjoxNzAwMDg2NDAwfQ.SoXs'' ! 0
   \<and> fst (verify (jsonwebtoken reference) Map.empty 1700000005000 [] ''eyJhbGciOiJIUzI1NiIsInR5cCI6IkpXVCJ9.eyJ1c2VySWQiOjQyLCJyb2xlIjoidXNlciIsImlhdCI6MTcwMDAwMDAwMCwiZXhwIjoxNzAwMDg2NDAwfQ.ToXs'')
       = Inl (JsError ''Error'' ''Failed to authenticate token'' None)"
proof -
  have a: "fst (sign (jsonwebtoken reference) Map.empty 1700000000123 []
             (JObj [(''userId'', JNum 42), (''role'', JStr ''user'')])) = Inr ''eyJhbGciOiJIUzI1NiIsInR5cCI6IkpXVCJ9.eyJ1c2VySWQiOjQyLCJyb2xlIjoidXNlciIsImlhdCI6MTcwMDAwMDAwMCwiZXhwIjoxNzAwMDg2NDAwfQ.SoXs''"
    by (simp add: run_sign)
  have b: "(0 :: nat) < length (signature_segment ''eyJhbGciOiJIUzI1NiIsInR5cCI6IkpXVCJ9.eyJ1c2VySWQiOjQyLCJyb2xlIjoidXNlciIsImlhdCI6MTcwMDAwMDAwMCwiZXhwIjoxNzAwMDg2NDAwfQ.SoXs'')"
    by (simp add: run_segment)
  have c: "CHR ''T'' \<noteq> signature_segment ''eyJhbGciOiJIUzI1NiIsInR5cCI6IkpXVCJ9.eyJ1c2VySWQiOjQyLCJyb2xlIjoidXNlciIsImlhdCI6MTcwMDAwMDAwMCwiZXhwIjoxNzAwMDg2NDAwfQ.SoXs'' ! 0"
    by (simp add: run_segment)
  from a b c tampered_signature_rejected [OF a reference_header b c, of 1700000005000 "[]"]
  show ?thesis
    by (simp only: run_flip simp_thms)
qed

section \<open>Another secret\<close>







end
